theory Spec2Isabelle
  imports Main "HOL-Library.AList"
begin

section \<open>JavaScript values\<close>

text \<open>
  The nodes work on the host's \<^verbatim>\<open>IDataObject\<close>: a JSON-like object whose values are typed
  dynamically. A value is one of the JavaScript kinds below; a number is an integer here
  (page counts, status codes and lengths are all the source computes with). An object is
  an association list in insertion order.
\<close>

datatype jsval =
    JUndefined
  | JNull
  | JBool bool
  | JNum int
  | JStr string
  | JArr "jsval list"
  | JObj "(string \<times> jsval) list"

type_synonym idataobject = "(string \<times> jsval) list"

text \<open>\<^verbatim>\<open>obj[k]\<close> on an \<^verbatim>\<open>IDataObject\<close>: a missing key reads as \<^verbatim>\<open>undefined\<close>.\<close>

definition get :: "idataobject \<Rightarrow> string \<Rightarrow> jsval" where
  "get obj k = (case map_of obj k of None \<Rightarrow> JUndefined | Some v \<Rightarrow> v)"

text \<open>\<^verbatim>\<open>obj[k] = v\<close>: an existing key keeps its place, a new key goes last.\<close>

definition set_key :: "string \<Rightarrow> jsval \<Rightarrow> idataobject \<Rightarrow> idataobject" where
  "set_key k v obj = AList.update k v obj"

text \<open>\<^verbatim>\<open>delete obj[k]\<close>.\<close>

definition delete_key :: "string \<Rightarrow> idataobject \<Rightarrow> idataobject" where
  "delete_key k obj = AList.delete k obj"

text \<open>The truth value a condition (\<^verbatim>\<open>if (v)\<close>, \<^verbatim>\<open>!v\<close>, \<^verbatim>\<open>v || w\<close>) gives a value.\<close>

fun js_truthy :: "jsval \<Rightarrow> bool" where
  "js_truthy JUndefined = False"
| "js_truthy JNull = False"
| "js_truthy (JBool b) = b"
| "js_truthy (JNum n) = (n \<noteq> 0)"
| "js_truthy (JStr s) = (s \<noteq> [])"
| "js_truthy (JArr xs) = True"
| "js_truthy (JObj kvs) = True"

definition js_or :: "jsval \<Rightarrow> jsval \<Rightarrow> jsval" where
  "js_or a b = (if js_truthy a then a else b)"

definition nullish :: "jsval \<Rightarrow> bool" where
  "nullish v = (case v of JUndefined \<Rightarrow> True | JNull \<Rightarrow> True | _ \<Rightarrow> False)"

text \<open>
  \<^verbatim>\<open>v[k]\<close> on a value that is neither \<^verbatim>\<open>null\<close> nor \<^verbatim>\<open>undefined\<close> (on those the read
  throws, and every caller below tests for that first): the own data properties of an
  object, and the \<^verbatim>\<open>length\<close> of an array or a string. The source reads named keys
  only, so array indices and prototype members are not modelled.
\<close>

fun js_get :: "jsval \<Rightarrow> string \<Rightarrow> jsval" where
  "js_get (JObj kvs) k = get kvs k"
| "js_get (JArr xs) k = (if k = ''length'' then JNum (int (length xs)) else JUndefined)"
| "js_get (JStr s) k = (if k = ''length'' then JNum (int (length s)) else JUndefined)"
| "js_get v k = JUndefined"

text \<open>\<^verbatim>\<open>v?.[k]\<close>.\<close>

definition js_get_opt :: "jsval \<Rightarrow> string \<Rightarrow> jsval" where
  "js_get_opt v k = (if nullish v then JUndefined else js_get v k)"

text \<open>
  \<^verbatim>\<open>a < b\<close> and \<^verbatim>\<open>a > b\<close> for operands the source casts to \<^verbatim>\<open>number\<close>. A missing
  operand is \<^verbatim>\<open>undefined\<close>, which compares false with everything; operands of the other
  kinds are outside the declared type and compare false here as well.
\<close>

fun js_lt :: "jsval \<Rightarrow> jsval \<Rightarrow> bool" where
  "js_lt (JNum a) (JNum b) = (a < b)"
| "js_lt a b = False"

definition js_gt :: "jsval \<Rightarrow> jsval \<Rightarrow> bool" where
  "js_gt a b = js_lt b a"

subsection \<open>Conversion to string\<close>

definition digit_char :: "nat \<Rightarrow> char" where
  "digit_char d = ''0123456789'' ! d"

fun digits_of_nat :: "nat \<Rightarrow> string" where
  "digits_of_nat n =
     (if n < 10 then [digit_char n] else digits_of_nat (n div 10) @ [digit_char (n mod 10)])"

definition string_of_int :: "int \<Rightarrow> string" where
  "string_of_int i =
     (if i < 0 then CHR ''-'' # digits_of_nat (nat (- i)) else digits_of_nat (nat i))"

fun join_comma :: "string list \<Rightarrow> string" where
  "join_comma [] = []"
| "join_comma [s] = s"
| "join_comma (s # t # ss) = s @ '','' @ join_comma (t # ss)"

text \<open>
  \<^verbatim>\<open>String(v)\<close>, which is also what a template literal applies to \<^verbatim>\<open>${v}\<close>. A number
  is written in decimal digits, as JavaScript writes an integer below \<^verbatim>\<open>1e21\<close>.
\<close>

fun js_String :: "jsval \<Rightarrow> string" where
  "js_String JUndefined = ''undefined''"
| "js_String JNull = ''null''"
| "js_String (JBool b) = (if b then ''true'' else ''false'')"
| "js_String (JNum n) = string_of_int n"
| "js_String (JStr s) = s"
| "js_String (JArr xs) = join_comma (map (\<lambda>x. if nullish x then [] else js_String x) xs)"
| "js_String (JObj kvs) = ''[object Object]''"

subsection \<open>Errors\<close>

text \<open>
  A thrown value is an error object, read by the source through a cast to
  \<^verbatim>\<open>IDataObject\<close>. A function that can throw returns a sum: \<open>Inl\<close> carries what it threw.
\<close>

definition js_Error :: "string \<Rightarrow> string \<Rightarrow> idataobject" where
  "js_Error name message = [(''name'', JStr name), (''message'', JStr message)]"

definition TypeError :: "string \<Rightarrow> idataobject" where
  "TypeError message = js_Error ''TypeError'' message"

definition NodeOperationError :: "string \<Rightarrow> idataobject" where
  "NodeOperationError message = js_Error ''NodeOperationError'' message"

text \<open>
  The spread \<^verbatim>\<open>...v\<close> in an argument list: the elements of an array, the characters of a
  string; every other value is not iterable.
\<close>

fun js_spread :: "jsval \<Rightarrow> idataobject + jsval list" where
  "js_spread (JArr xs) = Inr xs"
| "js_spread (JStr s) = Inr (map (\<lambda>c. JStr [c]) s)"
| "js_spread v = Inl (TypeError ''value is not iterable'')"

section \<open>The request helper (GenericFunctions.ts)\<close>

subsection \<open>The host\<close>

text \<open>
  The options handed to the host's HTTP helper. A deleted member is \<open>None\<close>.
\<close>

record http_options =
  opt_method :: string
  opt_url :: string
  opt_qs :: "idataobject option"
  opt_body :: "idataobject option"
  opt_json :: bool

text \<open>
  The execution context \<^verbatim>\<open>this\<close>, as far as the helper uses it. The host is outside the
  repository, so its functions are parameters: each takes the state of the outside world
  \<open>'w\<close> and returns what it answered, or \<open>Inl\<close> what it threw, with the next state of the
  world. \<open>nodeApiError cause message\<close> is the object that
  \<^verbatim>\<open>new NodeApiError(this.getNode(), cause, {message})\<close> builds, as the
  \<^verbatim>\<open>IDataObject\<close> a \<^verbatim>\<open>catch\<close> block reads.
\<close>

record 'w host_functions =
  getCredentials :: "string \<Rightarrow> 'w \<Rightarrow> (idataobject + idataobject) \<times> 'w"
  httpRequestWithAuthentication ::
    "string \<Rightarrow> http_options \<Rightarrow> 'w \<Rightarrow> (idataobject + jsval) \<times> 'w"
  nodeApiError :: "idataobject \<Rightarrow> string \<Rightarrow> idataobject"

text \<open>
  A run carries the world and the trace of the HTTP requests issued so far, each with the
  credential type it was made with.
\<close>

type_synonym request = "string \<times> http_options"

type_synonym 'w run = "'w \<times> request list"

definition API_BASE_URL :: string where
  "API_BASE_URL = ''https://api.sendseven.com/api/v1''"

subsection \<open>getCredentialType\<close>

definition getCredentialType :: "'w host_functions \<Rightarrow> 'w run \<Rightarrow> (idataobject + string) \<times> 'w run" where
  "getCredentialType ctx st =
     (case st of (w, trace) \<Rightarrow>
        (case getCredentials ctx ''sendSevenOAuth2Api'' w of
           (Inr credentials, w') \<Rightarrow> (Inr ''sendSevenOAuth2Api'', (w', trace))
         | (Inl error, w') \<Rightarrow> (Inr ''sendSevenApi'', (w', trace))))"

subsection \<open>getErrorMessage\<close>

text \<open>
  The error is read as an \<^verbatim>\<open>IDataObject\<close>. \<open>fallback\<close> is the code after the first
  \<^verbatim>\<open>if\<close>, reached whenever that block does not return.
\<close>

definition getErrorMessage :: "idataobject \<Rightarrow> string" where
  "getErrorMessage err =
     (let fallback =
            (if js_truthy (get err ''message'') then js_String (get err ''message'')
             else ''An unknown error occurred'')
      in if js_truthy (get err ''response'') then
           (let response = get err ''response'';
                body = js_get response ''body''
            in if js_truthy body then
                 (if js_truthy (js_get body ''detail'') then js_String (js_get body ''detail'')
                  else if js_truthy (js_get body ''message'') then js_String (js_get body ''message'')
                  else fallback)
               else fallback)
         else fallback)"

subsection \<open>sendSevenApiRequest\<close>

text \<open>
  The options object as it stands before the \<^verbatim>\<open>try\<close>: the body is deleted for a GET and
  for a body without keys, the query string for a query without keys.
\<close>

definition request_options ::
  "string \<Rightarrow> string \<Rightarrow> idataobject \<Rightarrow> idataobject \<Rightarrow> http_options" where
  "request_options method endpoint body query =
     (let options = \<lparr>opt_method = method, opt_url = API_BASE_URL @ endpoint,
                      opt_qs = Some query, opt_body = Some body, opt_json = True\<rparr>;
          options = (if method = ''GET'' \<or> body = [] then options\<lparr>opt_body := None\<rparr>
                     else options);
          options = (if query = [] then options\<lparr>opt_qs := None\<rparr> else options)
      in options)"

text \<open>
  The call of \<^verbatim>\<open>this.helpers.httpRequestWithAuthentication\<close>, the one place where a
  request leaves: it is appended to the trace.
\<close>

definition issue ::
  "'w host_functions \<Rightarrow> string \<Rightarrow> http_options \<Rightarrow> 'w run \<Rightarrow> (idataobject + jsval) \<times> 'w run" where
  "issue ctx credentialType options st =
     (case st of (w, trace) \<Rightarrow>
        (case httpRequestWithAuthentication ctx credentialType options w of
           (answer, w') \<Rightarrow> (answer, (w', trace @ [(credentialType, options)]))))"

text \<open>
  Both calls stand in the \<^verbatim>\<open>try\<close>: whatever one of them throws is thrown again as the
  host's API error, with the message \<open>getErrorMessage\<close> extracts.
\<close>

definition sendSevenApiRequest ::
  "'w host_functions \<Rightarrow> string \<Rightarrow> string \<Rightarrow> idataobject \<Rightarrow> idataobject \<Rightarrow> 'w run
     \<Rightarrow> (idataobject + jsval) \<times> 'w run" where
  "sendSevenApiRequest ctx method endpoint body query st =
     (let options = request_options method endpoint body query
      in case getCredentialType ctx st of
           (Inl error, st1) \<Rightarrow> (Inl (nodeApiError ctx error (getErrorMessage error)), st1)
         | (Inr credentialType, st1) \<Rightarrow>
             (case issue ctx credentialType options st1 of
                (Inl error, st2) \<Rightarrow> (Inl (nodeApiError ctx error (getErrorMessage error)), st2)
              | (Inr response, st2) \<Rightarrow> (Inr response, st2)))"

subsection \<open>sendSevenApiRequestAllItems\<close>

definition pageSize :: int where
  "pageSize = 100"

text \<open>
  One round of the \<^verbatim>\<open>while (hasMore)\<close> loop and the rounds after it. \<open>allItems\<close> and
  \<open>page\<close> are the loop's variables at the top of the round.
\<close>

function all_items_loop ::
  "'w host_functions \<Rightarrow> string \<Rightarrow> idataobject \<Rightarrow> string \<Rightarrow> jsval list \<Rightarrow> int \<Rightarrow> 'w run
     \<Rightarrow> (idataobject + jsval list) \<times> 'w run" where
  "all_items_loop ctx endpoint query itemsKey allItems page st =
     (case sendSevenApiRequest ctx ''GET'' endpoint []
             (set_key ''page_size'' (JNum pageSize) (set_key ''page'' (JNum page) query)) st of
        (Inl error, st') \<Rightarrow> (Inl error, st')
      | (Inr responseData, st') \<Rightarrow>
          if nullish responseData
          then (Inl (TypeError ''Cannot read properties of undefined''), st')
          else
            (let items = js_or (js_get responseData itemsKey) (JArr [])
             in case js_spread items of
                  Inl error \<Rightarrow> (Inl error, st')
                | Inr spread \<Rightarrow>
                    (let allItems' = allItems @ spread;
                         pagination = js_get responseData ''pagination'';
                         hasMore =
                           (if js_truthy pagination
                            then js_lt (js_get pagination ''page'') (js_get pagination ''total_pages'')
                            else js_get items ''length'' = JNum pageSize);
                         page' = page + 1
                     in if page' > 100 then (Inr allItems', st')
                        else if hasMore
                        then all_items_loop ctx endpoint query itemsKey allItems' page' st'
                        else (Inr allItems', st'))))"
  by pat_completeness auto
termination
  by (relation "measure (\<lambda>(ctx, endpoint, query, itemsKey, allItems, page, st). nat (101 - page))")
     auto

declare all_items_loop.simps [simp del]

definition sendSevenApiRequestAllItems ::
  "'w host_functions \<Rightarrow> string \<Rightarrow> idataobject \<Rightarrow> string \<Rightarrow> 'w run
     \<Rightarrow> (idataobject + jsval list) \<times> 'w run" where
  "sendSevenApiRequestAllItems ctx endpoint query itemsKey st =
     all_items_loop ctx endpoint query itemsKey [] 1 st"

subsection \<open>validateRequiredFields and the constants\<close>

fun validateRequiredFields :: "idataobject \<Rightarrow> string list \<Rightarrow> idataobject + unit" where
  "validateRequiredFields fieldValues [] = Inr ()"
| "validateRequiredFields fieldValues (field # required) =
     (if \<not> js_truthy (get fieldValues field)
      then Inl (NodeOperationError (''The '' @ [CHR 0x22] @ field @ [CHR 0x22] @ '' field is required''))
      else validateRequiredFields fieldValues required)"

definition WEBHOOK_EVENTS :: "(string \<times> string) list" where
  "WEBHOOK_EVENTS =
     [(''Message Received'', ''message.received''),
      (''Message Sent'', ''message.sent''),
      (''Message Status Updated'', ''message.status_updated''),
      (''Conversation Created'', ''conversation.created''),
      (''Conversation Closed'', ''conversation.closed''),
      (''Contact Created'', ''contact.created''),
      (''Contact Updated'', ''contact.updated''),
      (''Ticket Created'', ''ticket.created''),
      (''Ticket Closed'', ''ticket.closed''),
      (''Campaign Sent'', ''campaign.sent'')]"

subsection \<open>The response formatters\<close>

definition formatContactResponse :: "jsval \<Rightarrow> idataobject" where
  "formatContactResponse contact =
     [(''id'', js_get contact ''id''),
      (''name'', js_get contact ''name''),
      (''firstName'', js_get contact ''first_name''),
      (''lastName'', js_get contact ''last_name''),
      (''email'', js_get contact ''email''),
      (''phone'', js_get contact ''phone''),
      (''company'', js_get contact ''company''),
      (''notes'', js_get contact ''notes''),
      (''customFields'', js_get contact ''custom_fields''),
      (''tags'', js_get contact ''tags''),
      (''createdAt'', js_get contact ''created_at''),
      (''updatedAt'', js_get contact ''updated_at'')]"

definition formatConversationResponse :: "jsval \<Rightarrow> idataobject" where
  "formatConversationResponse conversation =
     [(''id'', js_get conversation ''id''),
      (''contactId'', js_get conversation ''contact_id''),
      (''contactName'',
         js_or (js_get conversation ''contact_name'')
               (js_get_opt (js_get conversation ''contact'') ''name'')),
      (''channelType'', js_get conversation ''channel_type''),
      (''channelId'', js_get conversation ''channel_id''),
      (''status'', js_get conversation ''status''),
      (''assignedToUserId'', js_get conversation ''assigned_to_user_id''),
      (''lastMessageAt'', js_get conversation ''last_message_at''),
      (''messageCount'', js_get conversation ''message_count''),
      (''unreadCount'', js_get conversation ''unread_count''),
      (''createdAt'', js_get conversation ''created_at''),
      (''updatedAt'', js_get conversation ''updated_at'')]"

definition formatMessageResponse :: "jsval \<Rightarrow> idataobject" where
  "formatMessageResponse message =
     [(''id'', js_get message ''id''),
      (''conversationId'', js_get message ''conversation_id''),
      (''channelId'', js_get message ''channel_id''),
      (''direction'', js_get message ''direction''),
      (''messageType'', js_or (js_get message ''message_type'') (js_get message ''type'')),
      (''text'', js_or (js_get message ''text'') (js_get message ''content'')),
      (''status'', js_get message ''status''),
      (''to'', js_get message ''to''),
      (''from'', js_get message ''from''),
      (''hasAttachments'', JBool (js_truthy (js_get_opt (js_get message ''attachments'') ''length''))),
      (''attachments'', js_get message ''attachments''),
      (''createdAt'', js_get message ''created_at'')]"

text \<open>
  A formatter applied to what the API answered: its first property read throws when the
  answer is \<^verbatim>\<open>null\<close> or \<^verbatim>\<open>undefined\<close>.
\<close>

definition formatted :: "(jsval \<Rightarrow> idataobject) \<Rightarrow> jsval \<Rightarrow> idataobject + idataobject" where
  "formatted format responseData =
     (if nullish responseData then Inl (TypeError ''Cannot read properties of undefined'')
      else Inr (format responseData))"

section \<open>The action node (SendSeven.node.ts, execute)\<close>

text \<open>
  \<^verbatim>\<open>JSON.parse\<close> belongs to the language runtime: the operations take it as the parameter
  \<open>JSON_parse\<close>, which returns the parsed value or \<open>Inl\<close> the \<^verbatim>\<open>SyntaxError\<close> it threw.
\<close>

type_synonym json_parser = "string \<Rightarrow> idataobject + jsval"

subsection \<open>contact: create\<close>

text \<open>
  The parameters \<open>name\<close>, \<open>email\<close> and \<open>phone\<close> are read as strings, with the default
  \<^verbatim>\<open>''\<close>; \<open>additionalFields\<close> is an \<^verbatim>\<open>IDataObject\<close>. The function is the body built before
  the request, or the error thrown on the way.
\<close>

definition customFields_value :: "json_parser \<Rightarrow> jsval \<Rightarrow> idataobject + jsval" where
  "customFields_value JSON_parse customFields =
     (case customFields of JStr text \<Rightarrow> JSON_parse text | _ \<Rightarrow> Inr customFields)"

definition contact_create_body ::
  "json_parser \<Rightarrow> string \<Rightarrow> string \<Rightarrow> string \<Rightarrow> idataobject \<Rightarrow> idataobject + idataobject" where
  "contact_create_body JSON_parse name email phone additionalFields =
     (if email = [] \<and> phone = []
      then Inl (js_Error ''Error'' ''Either email or phone is required to create a contact'')
      else
        (let body = [];
             body = (if name \<noteq> [] then set_key ''name'' (JStr name) body else body);
             body = (if email \<noteq> [] then set_key ''email'' (JStr email) body else body);
             body = (if phone \<noteq> [] then set_key ''phone'' (JStr phone) body else body);
             body = (if js_truthy (get additionalFields ''firstName'')
                     then set_key ''first_name'' (get additionalFields ''firstName'') body else body);
             body = (if js_truthy (get additionalFields ''lastName'')
                     then set_key ''last_name'' (get additionalFields ''lastName'') body else body);
             body = (if js_truthy (get additionalFields ''company'')
                     then set_key ''company'' (get additionalFields ''company'') body else body);
             body = (if js_truthy (get additionalFields ''notes'')
                     then set_key ''notes'' (get additionalFields ''notes'') body else body)
         in if js_truthy (get additionalFields ''customFields'')
            then (case customFields_value JSON_parse (get additionalFields ''customFields'') of
                    Inl error \<Rightarrow> Inl error
                  | Inr parsed \<Rightarrow> Inr (set_key ''custom_fields'' parsed body))
            else Inr body))"


subsection \<open>whatsappTemplate: send\<close>

text \<open>
  One template parameter, from one entry \<open>v\<close> of the variables: reading \<^verbatim>\<open>v.value\<close> throws
  when the entry is \<^verbatim>\<open>null\<close> or \<^verbatim>\<open>undefined\<close>.
\<close>

definition template_parameter :: "jsval \<Rightarrow> idataobject + jsval" where
  "template_parameter v =
     (if nullish v then Inl (TypeError ''Cannot read properties of undefined'')
      else Inr (JObj [(''type'', JStr ''text''), (''text'', JStr (js_String (js_get v ''value'')))]))"

text \<open>\<^verbatim>\<open>xs.map(f)\<close> for an \<open>f\<close> that can throw: the first throw ends the map.\<close>

fun map_throwing :: "('a \<Rightarrow> idataobject + 'b) \<Rightarrow> 'a list \<Rightarrow> idataobject + 'b list" where
  "map_throwing f [] = Inr []"
| "map_throwing f (x # xs) =
     (case f x of
        Inl error \<Rightarrow> Inl error
      | Inr y \<Rightarrow> (case map_throwing f xs of Inl error \<Rightarrow> Inl error | Inr ys \<Rightarrow> Inr (y # ys)))"

text \<open>
  \<^verbatim>\<open>variables.map(...)\<close> on the value \<^verbatim>\<open>variablesData.variables || []\<close>: only an array
  has a \<^verbatim>\<open>map\<close>.
\<close>

definition template_parameters :: "jsval \<Rightarrow> idataobject + jsval list" where
  "template_parameters variables =
     (case variables of
        JArr vs \<Rightarrow> map_throwing template_parameter vs
      | _ \<Rightarrow> Inl (TypeError ''variables.map is not a function''))"

text \<open>
  The parameters \<open>channelId\<close>, \<open>to\<close>, \<open>templateName\<close> and \<open>templateLanguage\<close> are read
  as strings, \<open>variablesData\<close> as an \<^verbatim>\<open>IDataObject\<close>. The function is the body built
  before the request, or the error thrown on the way.
\<close>

definition whatsappTemplate_send_body ::
  "string \<Rightarrow> string \<Rightarrow> string \<Rightarrow> string \<Rightarrow> idataobject \<Rightarrow> idataobject + idataobject" where
  "whatsappTemplate_send_body channelId to templateName templateLanguage variablesData =
     (case validateRequiredFields
             [(''channelId'', JStr channelId), (''to'', JStr to), (''templateName'', JStr templateName)]
             [''channelId'', ''to'', ''templateName''] of
        Inl error \<Rightarrow> Inl error
      | Inr u \<Rightarrow>
          (let template = [(''name'', JStr templateName),
                           (''language'', JObj [(''code'', JStr templateLanguage)])];
               variables = js_or (get variablesData ''variables'') (JArr [])
           in if js_gt (js_get variables ''length'') (JNum 0)
              then (case template_parameters variables of
                      Inl error \<Rightarrow> Inl error
                    | Inr parameters \<Rightarrow>
                        Inr [(''to'', JStr to), (''channel_id'', JStr channelId),
                             (''content'',
                                JObj [(''type'', JStr ''template''),
                                      (''template'',
                                         JObj (set_key ''components''
                                                 (JArr [JObj [(''type'', JStr ''body''),
                                                              (''parameters'', JArr parameters)]])
                                                 template))])])
              else Inr [(''to'', JStr to), (''channel_id'', JStr channelId),
                        (''content'',
                           JObj [(''type'', JStr ''template''), (''template'', JObj template)])]))"

definition whatsappTemplate_send ::
  "'w host_functions \<Rightarrow> string \<Rightarrow> string \<Rightarrow> string \<Rightarrow> string \<Rightarrow> idataobject \<Rightarrow> 'w run
     \<Rightarrow> (idataobject + idataobject) \<times> 'w run" where
  "whatsappTemplate_send ctx channelId to templateName templateLanguage variablesData st =
     (case whatsappTemplate_send_body channelId to templateName templateLanguage variablesData of
        Inl error \<Rightarrow> (Inl error, st)
      | Inr body \<Rightarrow>
          (case sendSevenApiRequest ctx ''POST'' ''/messages'' body [] st of
             (Inl error, st') \<Rightarrow> (Inl error, st')
           | (Inr responseData, st') \<Rightarrow>
               (case formatted formatMessageResponse responseData of
                  Inl error \<Rightarrow> (Inl error, st')
                | Inr message \<Rightarrow>
                    (Inr (set_key ''variablesSent''
                            (js_get (js_or (get variablesData ''variables'') (JArr [])) ''length'')
                            (set_key ''templateLanguage'' (JStr templateLanguage)
                               (set_key ''templateName'' (JStr templateName) message))),
                     st'))))"

section \<open>The trigger node (SendSeven.node.ts, SendSevenTrigger)\<close>

subsection \<open>webhookMethods.default.delete\<close>

text \<open>
  \<open>webhookData\<close> is the workflow's static data of the node, which the method changes in
  place: the function returns it next to the method's answer.
\<close>

definition webhook_delete ::
  "'w host_functions \<Rightarrow> idataobject \<Rightarrow> 'w run \<Rightarrow> (bool \<times> idataobject) \<times> 'w run" where
  "webhook_delete ctx webhookData st =
     (let webhookId = get webhookData ''webhookId''
      in if \<not> js_truthy webhookId then ((True, webhookData), st)
         else
           (case sendSevenApiRequest ctx ''DELETE'' (''/webhooks/'' @ js_String webhookId) [] [] st of
              (Inl err, st') \<Rightarrow>
                if js_or (get err ''httpCode'') (get err ''statusCode'') \<noteq> JNum 404
                then ((False, webhookData), st')
                else ((True, delete_key ''secretKey'' (delete_key ''webhookId'' webhookData)), st')
            | (Inr response, st') \<Rightarrow>
                ((True, delete_key ''secretKey'' (delete_key ''webhookId'' webhookData)), st')))"

subsection \<open>webhook\<close>

text \<open>
  What the handler reads of its context: the request's headers, the parsed body, the
  node's \<^verbatim>\<open>event\<close> parameter and the static data.
\<close>

record webhook_functions =
  getRequestObject_headers :: idataobject
  getBodyData :: idataobject
  getNodeParameter_event :: string
  getWorkflowStaticData :: idataobject

record node_execution_data =
  json :: idataobject

record webhook_response_data =
  noWebhookResponse :: "bool option"
  workflowData :: "node_execution_data list list option"

text \<open>
  The block headed \<^verbatim>\<open>Optional: Verify webhook signature\<close>: it reads the secret and the
  header, and its innermost branch holds a comment only.
\<close>

definition verify_signature_block :: "idataobject \<Rightarrow> idataobject \<Rightarrow> unit" where
  "verify_signature_block headers webhookData =
     (let secretKey = get webhookData ''secretKey''
      in if js_truthy secretKey
         then (let signature = get headers ''x-sendseven-signature''
               in if js_truthy signature then () else ())
         else ())"

definition contact_or_null :: "jsval \<Rightarrow> jsval" where
  "contact_or_null contact =
     (if js_truthy (js_get contact ''id'') then JObj (formatContactResponse contact) else JNull)"

definition conversation_or_null :: "jsval \<Rightarrow> jsval" where
  "conversation_or_null conversation =
     (if js_truthy (js_get conversation ''id'')
      then JObj (formatConversationResponse conversation) else JNull)"

definition format_event :: "string \<Rightarrow> idataobject \<Rightarrow> idataobject" where
  "format_event receivedEvent body =
     (let data = js_or (get body ''data'') (JObj [])
      in if receivedEvent = ''message.received'' \<or> receivedEvent = ''message.sent''
            \<or> receivedEvent = ''message.status_updated''
         then
           (let message = js_or (js_get data ''message'') (JObj []);
                contact = js_or (js_get data ''contact'') (JObj []);
                conversation = js_or (js_get data ''conversation'') (JObj [])
            in [(''id'', js_or (js_get message ''id'') (get body ''event_id'')),
                (''event'', JStr receivedEvent),
                (''message'', JObj (formatMessageResponse message)),
                (''contact'', contact_or_null contact),
                (''conversation'', conversation_or_null conversation),
                (''timestamp'', get body ''timestamp'')])
         else if receivedEvent = ''conversation.created'' \<or> receivedEvent = ''conversation.closed''
         then
           (let conversation = js_or (js_get data ''conversation'') data;
                contact = js_or (js_get data ''contact'') (JObj [])
            in [(''id'', js_or (js_get conversation ''id'') (get body ''event_id'')),
                (''event'', JStr receivedEvent),
                (''conversation'', JObj (formatConversationResponse conversation)),
                (''contact'', contact_or_null contact),
                (''timestamp'', get body ''timestamp'')])
         else if receivedEvent = ''contact.created'' \<or> receivedEvent = ''contact.updated''
         then
           (let contact = js_or (js_get data ''contact'') data
            in [(''id'', js_or (js_get contact ''id'') (get body ''event_id'')),
                (''event'', JStr receivedEvent),
                (''contact'', JObj (formatContactResponse contact)),
                (''timestamp'', get body ''timestamp'')])
         else if receivedEvent = ''ticket.created'' \<or> receivedEvent = ''ticket.closed''
         then
           (let ticket = js_or (js_get data ''ticket'') data;
                conversation = js_or (js_get data ''conversation'') (JObj []);
                contact = js_or (js_get data ''contact'') (JObj [])
            in [(''id'', js_or (js_get ticket ''id'') (get body ''event_id'')),
                (''event'', JStr receivedEvent),
                (''ticket'',
                   JObj [(''id'', js_get ticket ''id''),
                         (''status'', js_get ticket ''status''),
                         (''summary'', js_get ticket ''summary''),
                         (''conversationId'',
                            js_or (js_get ticket ''conversation_id'') (js_get conversation ''id'')),
                         (''assignedToUserId'', js_get ticket ''assigned_to_user_id''),
                         (''createdAt'', js_get ticket ''created_at''),
                         (''closedAt'', js_get ticket ''closed_at'')]),
                (''conversation'', conversation_or_null conversation),
                (''contact'', contact_or_null contact),
                (''timestamp'', get body ''timestamp'')])
         else if receivedEvent = ''campaign.sent''
         then
           (let campaign = js_or (js_get data ''campaign'') data
            in [(''id'', js_or (js_get campaign ''id'') (get body ''event_id'')),
                (''event'', JStr receivedEvent),
                (''campaign'',
                   JObj [(''id'', js_get campaign ''id''),
                         (''name'', js_get campaign ''name''),
                         (''type'', js_get campaign ''type''),
                         (''status'', js_get campaign ''status''),
                         (''sentCount'', js_get campaign ''sent_count''),
                         (''deliveredCount'', js_get campaign ''delivered_count''),
                         (''failedCount'', js_get campaign ''failed_count''),
                         (''sentAt'', js_get campaign ''sent_at'')]),
                (''timestamp'', get body ''timestamp'')])
         else
           [(''id'', get body ''event_id''),
            (''event'', JStr receivedEvent),
            (''data'', data),
            (''timestamp'', get body ''timestamp''),
            (''raw'', JObj body)])"

text \<open>
  The handler. \<^verbatim>\<open>receivedEvent !== event\<close> compares a value with a string: they are
  equal only when the value is that string, so past the test \<open>receivedEvent\<close> is the
  configured event.
\<close>

definition webhook :: "webhook_functions \<Rightarrow> webhook_response_data" where
  "webhook this =
     (let headers = getRequestObject_headers this;
          body = getBodyData this;
          event = getNodeParameter_event this;
          receivedEvent = get body ''event''
      in if receivedEvent \<noteq> JStr event
         then \<lparr>noWebhookResponse = Some True, workflowData = None\<rparr>
         else
           (let webhookData = getWorkflowStaticData this;
                u = verify_signature_block headers webhookData;
                formattedData = format_event event body
            in \<lparr>noWebhookResponse = None,
                workflowData = Some [[\<lparr>json = formattedData\<rparr>]]\<rparr>))"

section \<open>Simulated hosts and the specification's notions\<close>

subsection \<open>A simulated API\<close>

text \<open>
  A host without a state of its own: every request is answered by \<open>answer\<close>; reading the
  OAuth2 credentials succeeds when \<open>oauth\<close> holds and throws otherwise; the API error it
  builds is the cause with the message set.
\<close>

definition simulated_host :: "(http_options \<Rightarrow> idataobject + jsval) \<Rightarrow> bool \<Rightarrow> unit host_functions" where
  "simulated_host answer oauth =
     \<lparr>getCredentials =
        (\<lambda>name w. (if oauth then Inr [(''oauthTokenData'', JObj [])]
                    else Inl (js_Error ''Error'' ''Node does not have any credentials set''), w)),
      httpRequestWithAuthentication = (\<lambda>credentialType options w. (answer options, w)),
      nodeApiError = (\<lambda>cause message. set_key ''message'' (JStr message) cause)\<rparr>"

text \<open>
  The paginated API of the specification: \<open>pages\<close> are its pages in order. Asked for page
  \<open>p\<close>, it answers with the items of that page (none beyond the last page) and the
  envelope \<^verbatim>\<open>{page: p, total_pages: N}\<close>, where \<open>N\<close> is the number of pages.
\<close>

definition requested_page :: "http_options \<Rightarrow> jsval" where
  "requested_page options = (case opt_qs options of None \<Rightarrow> JUndefined | Some query \<Rightarrow> get query ''page'')"

definition page_items :: "jsval list list \<Rightarrow> jsval \<Rightarrow> jsval list" where
  "page_items pages page =
     (case page of
        JNum p \<Rightarrow> if 1 \<le> p \<and> p \<le> int (length pages) then pages ! nat (p - 1) else []
      | _ \<Rightarrow> [])"

definition page_response :: "jsval list list \<Rightarrow> jsval \<Rightarrow> jsval" where
  "page_response pages page =
     JObj [(''items'', JArr (page_items pages page)),
           (''pagination'', JObj [(''page'', page), (''total_pages'', JNum (int (length pages)))])]"

definition serves_pages :: "'w host_functions \<Rightarrow> jsval list list \<Rightarrow> bool" where
  "serves_pages ctx pages =
     (\<forall>credentialType options w.
        fst (httpRequestWithAuthentication ctx credentialType options w)
          = Inr (page_response pages (requested_page options)))"

definition paged_api :: "jsval list list \<Rightarrow> unit host_functions" where
  "paged_api pages = simulated_host (\<lambda>options. Inr (page_response pages (requested_page options))) False"

text \<open>An API whose envelope always reports one more page.\<close>

definition endless_api :: "unit host_functions" where
  "endless_api =
     simulated_host
       (\<lambda>options. Inr (JObj [(''items'', JArr [JNum 1]),
                               (''pagination'', JObj [(''page'', JNum 1), (''total_pages'', JNum 2)])]))
       True"

text \<open>An API that fails every request with the given error object.\<close>

definition failing_api :: "idataobject \<Rightarrow> unit host_functions" where
  "failing_api error = simulated_host (\<lambda>options. Inl error) False"

text \<open>
  A host whose API error keeps the HTTP status of its cause as text: the host library
  declares \<^verbatim>\<open>httpCode\<close> of its \<^verbatim>\<open>NodeApiError\<close> as a string, found in the cause under
  \<^verbatim>\<open>httpCode\<close>, \<^verbatim>\<open>statusCode\<close> or \<^verbatim>\<open>status\<close> and converted when it is a number. The
  API error has no \<^verbatim>\<open>statusCode\<close> of its own. Every request fails with \<open>error\<close>.
\<close>

definition status_text :: "idataobject \<Rightarrow> jsval" where
  "status_text cause =
     (let status = js_or (get cause ''httpCode'')
                     (js_or (get cause ''statusCode'') (get cause ''status''))
      in if js_truthy status then JStr (js_String status) else JNull)"

definition text_status_api :: "idataobject \<Rightarrow> unit host_functions" where
  "text_status_api error =
     \<lparr>getCredentials =
        (\<lambda>name w. (Inl (js_Error ''Error'' ''Node does not have any credentials set''), w)),
      httpRequestWithAuthentication = (\<lambda>credentialType options w. (Inl error, w)),
      nodeApiError =
        (\<lambda>cause message.
           [(''message'', JStr message), (''httpCode'', status_text cause), (''cause'', JObj cause)])\<rparr>"

text \<open>A stand-in for \<^verbatim>\<open>JSON.parse\<close> that knows three texts and rejects every other.\<close>

definition sample_JSON_parse :: json_parser where
  "sample_JSON_parse text =
     (if text = ''{}'' then Inr (JObj [])
      else if text = ''[1,2]'' then Inr (JArr [JNum 1, JNum 2])
      else if text = ''42'' then Inr (JNum 42)
      else Inl (js_Error ''SyntaxError'' ''Unexpected token''))"

subsection \<open>The error message, in the specification's words\<close>

text \<open>
  The specification prefers the \<^verbatim>\<open>detail\<close> field of the response body, then its
  \<^verbatim>\<open>message\<close> field, then the raw error's message, then a generic string. A field is
  present when it is there with a value that counts as true: a missing, null, empty, zero
  or false field is passed over.
\<close>

definition response_body_field :: "idataobject \<Rightarrow> string \<Rightarrow> jsval" where
  "response_body_field err k = js_get_opt (js_get_opt (get err ''response'') ''body'') k"

definition spec_error_message :: "idataobject \<Rightarrow> string" where
  "spec_error_message err =
     (if js_truthy (response_body_field err ''detail'')
      then js_String (response_body_field err ''detail'')
      else if js_truthy (response_body_field err ''message'')
      then js_String (response_body_field err ''message'')
      else if js_truthy (get err ''message'') then js_String (get err ''message'')
      else ''An unknown error occurred'')"

subsection \<open>The contact payload, in the specification's words\<close>






subsection \<open>The status of a failed deletion\<close>

text \<open>The status the delete method reads off the error it caught.\<close>

definition error_status :: "idataobject \<Rightarrow> jsval" where
  "error_status err = js_or (get err ''httpCode'') (get err ''statusCode'')"

section \<open>Objects and the request helper: basic facts\<close>

lemma get_set_key: "get (set_key k v obj) k' = (if k' = k then v else get obj k')"
  by (simp add: get_def set_key_def update_conv')

lemma set_key_not_Nil: "set_key k v obj \<noteq> []"
  by (cases obj) (simp_all add: set_key_def)


text \<open>Reading the credential type never throws and issues no request.\<close>

lemma getCredentialType_Inr:
  "\<exists>c w'. getCredentialType ctx (w, trace) = (Inr c, (w', trace))"
  by (auto simp: getCredentialType_def split: prod.splits sum.splits)

lemma getCredentialType_fallback:
  assumes "fst (getCredentials ctx ''sendSevenOAuth2Api'' w) = Inl e"
  shows "getCredentialType ctx (w, trace)
           = (Inr ''sendSevenApi'', (snd (getCredentials ctx ''sendSevenOAuth2Api'' w), trace))"
  using assms by (auto simp: getCredentialType_def split: prod.splits sum.splits)

text \<open>A call of the helper issues exactly one request, with the credential type it read.\<close>

lemma sendSevenApiRequest_trace:
  assumes "getCredentialType ctx st = (Inr c, st1)"
  shows "snd (snd (sendSevenApiRequest ctx method endpoint body query st))
           = snd st1 @ [(c, request_options method endpoint body query)]"
  using assms
  by (cases st1) (auto simp: sendSevenApiRequest_def issue_def Let_def split: prod.splits sum.splits)

lemma sendSevenApiRequest_answer:
  assumes "getCredentialType ctx st = (Inr c, st1)"
    and "httpRequestWithAuthentication ctx c (request_options method endpoint body query) (fst st1)
           = (answer, w2)"
  shows "sendSevenApiRequest ctx method endpoint body query st
           = (case answer of
                Inl error \<Rightarrow> Inl (nodeApiError ctx error (getErrorMessage error))
              | Inr response \<Rightarrow> Inr response,
              (w2, snd st1 @ [(c, request_options method endpoint body query)]))"
  using assms
  by (cases st1) (auto simp: sendSevenApiRequest_def issue_def Let_def split: prod.splits sum.splits)

lemma sendSevenApiRequest_cases:
  obtains (threw) c e w' where
      "sendSevenApiRequest ctx method endpoint body query (w, trace)
         = (Inl e, (w', trace @ [(c, request_options method endpoint body query)]))"
    | (answered) c r w' where
      "sendSevenApiRequest ctx method endpoint body query (w, trace)
         = (Inr r, (w', trace @ [(c, request_options method endpoint body query)]))"
proof -
  obtain c w1 where c: "getCredentialType ctx (w, trace) = (Inr c, (w1, trace))"
    using getCredentialType_Inr [of ctx w trace] by blast
  obtain answer w2 where h:
    "httpRequestWithAuthentication ctx c (request_options method endpoint body query) w1 = (answer, w2)"
    by (cases "httpRequestWithAuthentication ctx c (request_options method endpoint body query) w1")
  from sendSevenApiRequest_answer [OF c, of "method" endpoint body query answer w2] h
  show thesis
    by (cases answer) (auto intro: threw answered)
qed

lemma post_request_trace:
  assumes "body \<noteq> []"
  shows "\<exists>c. snd (snd (sendSevenApiRequest ctx ''POST'' endpoint body [] (w, trace)))
           = trace @ [(c, \<lparr>opt_method = ''POST'', opt_url = API_BASE_URL @ endpoint,
                           opt_qs = None, opt_body = Some body, opt_json = True\<rparr>)]"
proof -
  obtain c w1 where c: "getCredentialType ctx (w, trace) = (Inr c, (w1, trace))"
    using getCredentialType_Inr [of ctx w trace] by blast
  from sendSevenApiRequest_trace [OF c, of "''POST''" endpoint body "[]"] assms
  show ?thesis
    by (auto simp: request_options_def Let_def)
qed

text \<open>The evaluation rules of the simulated hosts.\<close>

lemmas host_simps = simulated_host_def paged_api_def failing_api_def endless_api_def
  sendSevenApiRequest_def getCredentialType_def issue_def request_options_def API_BASE_URL_def
  getErrorMessage_def js_Error_def get_def set_key_def delete_key_def js_or_def js_get_opt_def
  nullish_def Let_def

section \<open>Pagination\<close>

lemma serves_pages_paged_api: "serves_pages (paged_api pages) pages"
  by (simp add: serves_pages_def paged_api_def simulated_host_def)

lemma serves_pages_request:
  assumes "serves_pages ctx pages"
  shows "\<exists>st'. sendSevenApiRequest ctx ''GET'' endpoint []
                 (set_key ''page_size'' (JNum pageSize) (set_key ''page'' (JNum p) query)) st
               = (Inr (page_response pages (JNum p)), st')"
proof -
  let ?query = "set_key ''page_size'' (JNum pageSize) (set_key ''page'' (JNum p) query)"
  let ?options = "request_options ''GET'' endpoint [] ?query"
  obtain w trace where st: "st = (w, trace)" by (cases st)
  obtain c w1 where c: "getCredentialType ctx (w, trace) = (Inr c, (w1, trace))"
    using getCredentialType_Inr [of ctx w trace] by blast
  obtain answer w2 where h: "httpRequestWithAuthentication ctx c ?options w1 = (answer, w2)"
    by (cases "httpRequestWithAuthentication ctx c ?options w1")
  have "requested_page ?options = JNum p"
    by (simp add: requested_page_def request_options_def set_key_not_Nil get_set_key Let_def)
  moreover from assms have "fst (httpRequestWithAuthentication ctx c ?options w1)
      = Inr (page_response pages (requested_page ?options))"
    by (simp add: serves_pages_def)
  ultimately have "answer = Inr (page_response pages (JNum p))"
    using h by simp
  with sendSevenApiRequest_answer [of ctx "(w, trace)" c "(w1, trace)" "''GET''" endpoint "[]" ?query answer w2]
    c h st
  show ?thesis by simp
qed

text \<open>One round of the loop on an answer of the paginated API.\<close>

lemma all_items_loop_page:
  assumes "sendSevenApiRequest ctx ''GET'' endpoint []
             (set_key ''page_size'' (JNum pageSize) (set_key ''page'' (JNum p) query)) st
           = (Inr (page_response pages (JNum p)), st')"
  shows "all_items_loop ctx endpoint query ''items'' allItems p st =
           (if p + 1 > 100 \<or> \<not> p < int (length pages)
            then (Inr (allItems @ page_items pages (JNum p)), st')
            else all_items_loop ctx endpoint query ''items''
                   (allItems @ page_items pages (JNum p)) (p + 1) st')"
  by (subst all_items_loop.simps)
     (simp add: assms page_response_def nullish_def js_or_def get_def Let_def)

lemma drop_page:
  assumes "1 \<le> p" and "p \<le> int (length pages)"
  shows "drop (nat (p - 1)) pages = pages ! nat (p - 1) # drop (nat p) pages"
proof -
  have "nat (p - 1) < length pages" using assms by linarith
  moreover have "Suc (nat (p - 1)) = nat p" using assms by linarith
  ultimately show ?thesis
    using Cons_nth_drop_Suc [of "nat (p - 1)" pages] by simp
qed

text \<open>
  From page \<open>p\<close> on, the loop adds the pages \<open>p, p + 1, \<dots>\<close> to what it has collected:
  induction on the number of pages left.
\<close>

lemma all_items_loop_pages:
  assumes "serves_pages ctx pages" and "length pages \<le> 100"
    and "1 \<le> p" and "p \<le> int (length pages)"
  shows "fst (all_items_loop ctx endpoint query ''items'' allItems p st)
           = Inr (allItems @ concat (drop (nat (p - 1)) pages))"
  using assms(3,4)
proof (induction "nat (int (length pages) - p)" arbitrary: p allItems st)
  case 0
  then have p: "p = int (length pages)" by simp
  obtain st' where r: "sendSevenApiRequest ctx ''GET'' endpoint []
             (set_key ''page_size'' (JNum pageSize) (set_key ''page'' (JNum p) query)) st
           = (Inr (page_response pages (JNum p)), st')"
    using serves_pages_request [OF assms(1)] by blast
  have last_page: "\<not> p < int (length pages)"
    using p by simp
  have loop: "all_items_loop ctx endpoint query ''items'' allItems p st
      = (Inr (allItems @ page_items pages (JNum p)), st')"
    using last_page by (simp add: all_items_loop_page [OF r])
  have items: "page_items pages (JNum p) = pages ! nat (p - 1)"
    using "0.prems" by (simp add: page_items_def)
  have "drop (nat (p - 1)) pages = [pages ! nat (p - 1)]"
    using drop_page [OF "0.prems"] p by simp
  then show ?case
    by (simp add: loop items)
next
  case (Suc n)
  then have lt: "p < int (length pages)" by linarith
  obtain st' where r: "sendSevenApiRequest ctx ''GET'' endpoint []
             (set_key ''page_size'' (JNum pageSize) (set_key ''page'' (JNum p) query)) st
           = (Inr (page_response pages (JNum p)), st')"
    using serves_pages_request [OF assms(1)] by blast
  have n: "n = nat (int (length pages) - (p + 1))" using Suc.hyps(2) by linarith
  have "fst (all_items_loop ctx endpoint query ''items'' allItems p st)
      = fst (all_items_loop ctx endpoint query ''items''
               (allItems @ page_items pages (JNum p)) (p + 1) st')"
    using lt assms(2) by (simp add: all_items_loop_page [OF r])
  also have "\<dots> = Inr ((allItems @ page_items pages (JNum p)) @ concat (drop (nat (p + 1 - 1)) pages))"
    using Suc.hyps(1) [OF n] Suc.prems lt by simp
  finally show ?case
    using drop_page [OF Suc.prems] lt Suc.prems by (simp add: page_items_def)
qed

lemma all_items_no_pages:
  assumes "serves_pages ctx []"
  shows "fst (all_items_loop ctx endpoint query ''items'' [] 1 st) = Inr []"
proof -
  obtain st' where r: "sendSevenApiRequest ctx ''GET'' endpoint []
             (set_key ''page_size'' (JNum pageSize) (set_key ''page'' (JNum 1) query)) st
           = (Inr (page_response [] (JNum 1)), st')"
    using serves_pages_request [OF assms] by blast
  show ?thesis
    by (simp add: all_items_loop_page [OF r] page_items_def)
qed

lemma length_concat_full:
  "\<forall>page \<in> set xs. length page = 100 \<Longrightarrow> length (concat xs) = 100 * length xs"
  by (induction xs) simp_all

lemma length_concat_pages:
  assumes "\<forall>page \<in> set (butlast pages). length page = 100" and "pages \<noteq> []"
  shows "length (concat pages) = 100 * (length pages - 1) + length (last pages)"
proof -
  have "concat pages = concat (butlast pages @ [last pages])"
    using assms(2) by simp
  then have "concat pages = concat (butlast pages) @ last pages"
    by (simp del: append_butlast_last_id)
  then show ?thesis
    using length_concat_full [OF assms(1)] by simp
qed

text \<open>
  \<^bold>\<open>C1.\<close> Let the API serve the pages \<open>pages\<close>, at most 100 of them, each with the
  envelope that gives their number as \<^verbatim>\<open>total_pages\<close>; let every page but the last hold
  exactly 100 items and the last one at most 100. Then \<open>sendSevenApiRequestAllItems\<close>
  returns the items of all pages, concatenated in page order: \<open>100 * N\<close> items for \<open>N\<close>
  pages, less what the last page is short of.
\<close>

theorem pagination_returns_all_pages:
  assumes "serves_pages ctx pages" and "length pages \<le> 100"
    and "\<forall>page \<in> set (butlast pages). length page = 100"
    and "pages \<noteq> [] \<longrightarrow> length (last pages) \<le> 100"
  shows "fst (sendSevenApiRequestAllItems ctx endpoint query ''items'' st) = Inr (concat pages)
       \<and> length (concat pages)
           = (if pages = [] then 0 else 100 * (length pages - 1) + length (last pages))
       \<and> length (concat pages) \<le> 100 * length pages"
proof (cases "pages = []")
  case True
  with assms(1) show ?thesis
    by (simp add: sendSevenApiRequestAllItems_def all_items_no_pages)
next
  case False
  then have "1 \<le> int (length pages)" by (cases pages) simp_all
  with all_items_loop_pages [OF assms(1,2), where p = 1 and allItems = "[]"]
  have "fst (sendSevenApiRequestAllItems ctx endpoint query ''items'' st) = Inr (concat pages)"
    by (simp add: sendSevenApiRequestAllItems_def)
  moreover have "length (concat pages) = 100 * (length pages - 1) + length (last pages)"
    using length_concat_pages [OF assms(3) False] .
  moreover have "100 * (length pages - 1) + length (last pages) \<le> 100 * length pages"
    using assms(4) False by (cases pages) simp_all
  ultimately show ?thesis using False by simp
qed

text \<open>Two pages, the second one short: 102 items come back.\<close>

theorem pagination_returns_all_pages_witness:
  "fst (sendSevenApiRequestAllItems (paged_api [replicate 100 (JNum 7), [JNum 8, JNum 9]])
          ''/contacts'' [] ''items'' ((), []))
     = Inr (concat [replicate 100 (JNum 7), [JNum 8, JNum 9]])
   \<and> length (concat [replicate 100 (JNum 7), [JNum 8, JNum 9]]) = 102"
  using pagination_returns_all_pages [OF serves_pages_paged_api,
      of "[replicate 100 (JNum 7), [JNum 8, JNum 9]]" "''/contacts''" "[]" "((), [])"]
  by simp

text \<open>One round issues one request, and then the loop stops or goes on to the next page.\<close>

lemma all_items_loop_round:
  "\<exists>c. snd (snd (all_items_loop ctx endpoint query itemsKey allItems page (w, trace)))
          = trace @ [c]
      \<or> (page + 1 \<le> 100 \<and>
          (\<exists>items w'. snd (snd (all_items_loop ctx endpoint query itemsKey allItems page (w, trace)))
             = snd (snd (all_items_loop ctx endpoint query itemsKey items (page + 1)
                          (w', trace @ [c])))))"
proof (cases rule: sendSevenApiRequest_cases [of ctx "''GET''" endpoint "[]"
      "set_key ''page_size'' (JNum pageSize) (set_key ''page'' (JNum page) query)" w trace])
  case (threw c e w')
  then show ?thesis
    by (subst all_items_loop.simps) auto
next
  case (answered c r w')
  let ?c = "(c, request_options ''GET'' endpoint []
      (set_key ''page_size'' (JNum pageSize) (set_key ''page'' (JNum page) query)))"
  have "(\<exists>result. all_items_loop ctx endpoint query itemsKey allItems page (w, trace)
                    = (result, (w', trace @ [?c])))
      \<or> (page + 1 \<le> 100 \<and>
          (\<exists>items. all_items_loop ctx endpoint query itemsKey allItems page (w, trace)
                    = all_items_loop ctx endpoint query itemsKey items (page + 1) (w', trace @ [?c])))"
    unfolding all_items_loop.simps [of ctx endpoint query itemsKey allItems page "(w, trace)"]
    by (auto simp: answered Let_def split: sum.splits)
  then show ?thesis
    by (metis snd_conv)
qed

text \<open>From page \<open>page\<close> on, the loop issues at most \<open>101 - page\<close> requests.\<close>

lemma all_items_loop_requests:
  assumes "page \<le> 100"
  shows "\<exists>issued. snd (snd (all_items_loop ctx endpoint query itemsKey allItems page (w, trace)))
                    = trace @ issued
               \<and> length issued \<le> nat (101 - page)"
  using assms
proof (induction "nat (100 - page)" arbitrary: page allItems w trace)
  case 0
  then have "\<not> page + 1 \<le> 100" by simp
  with all_items_loop_round [of ctx endpoint query itemsKey allItems page w trace]
  obtain c where "snd (snd (all_items_loop ctx endpoint query itemsKey allItems page (w, trace)))
          = trace @ [c]" by blast
  with "0.prems" show ?case
    by (intro exI [where x = "[c]"]) simp
next
  case (Suc n)
  then have n: "n = nat (100 - (page + 1))" and le: "page + 1 \<le> 100" by linarith+
  from all_items_loop_round [of ctx endpoint query itemsKey allItems page w trace]
  obtain c where c: "snd (snd (all_items_loop ctx endpoint query itemsKey allItems page (w, trace)))
          = trace @ [c]
      \<or> (\<exists>items w'. snd (snd (all_items_loop ctx endpoint query itemsKey allItems page (w, trace)))
             = snd (snd (all_items_loop ctx endpoint query itemsKey items (page + 1)
                          (w', trace @ [c]))))" by blast
  then show ?case
  proof
    assume "snd (snd (all_items_loop ctx endpoint query itemsKey allItems page (w, trace)))
          = trace @ [c]"
    with le show ?thesis
      by (intro exI [where x = "[c]"]) simp
  next
    assume "\<exists>items w'. snd (snd (all_items_loop ctx endpoint query itemsKey allItems page (w, trace)))
             = snd (snd (all_items_loop ctx endpoint query itemsKey items (page + 1)
                          (w', trace @ [c])))"
    then obtain items w' where step:
      "snd (snd (all_items_loop ctx endpoint query itemsKey allItems page (w, trace)))
         = snd (snd (all_items_loop ctx endpoint query itemsKey items (page + 1) (w', trace @ [c])))"
      by blast
    from Suc.hyps(1) [OF n le, of items w' "trace @ [c]"]
    obtain issued where
      "snd (snd (all_items_loop ctx endpoint query itemsKey items (page + 1) (w', trace @ [c])))
         = (trace @ [c]) @ issued" "length issued \<le> nat (101 - (page + 1))"
      by blast
    with step le show ?thesis
      by (intro exI [where x = "c # issued"]) simp
  qed
qed

text \<open>
  \<^bold>\<open>C2.\<close> Whatever the host answers, with or without an envelope, consistent or not,
  with a response or with an error, \<open>sendSevenApiRequestAllItems\<close> returns, and the requests
  it has added to the trace are at most 100. That it returns is the totality of
  \<open>all_items_loop\<close>, whose termination was proved with the measure \<open>101 - page\<close>; each host
  call is taken to return.
\<close>

theorem pagination_bounded:
  "\<exists>issued. snd (snd (sendSevenApiRequestAllItems ctx endpoint query itemsKey (w, trace)))
               = trace @ issued
           \<and> length issued \<le> 100"
  using all_items_loop_requests [of 1 ctx endpoint query itemsKey "[]" w trace]
  by (simp add: sendSevenApiRequestAllItems_def)

text \<open>
  The bound is reached: an API whose envelope reports one more page for ever is asked
  exactly 100 times.
\<close>

lemma endless_round:
  "page < 100 \<Longrightarrow>
   all_items_loop endless_api endpoint query ''items'' allItems page ((), trace)
     = all_items_loop endless_api endpoint query ''items'' (allItems @ [JNum 1]) (page + 1)
         ((), trace @ [(''sendSevenOAuth2Api'',
            request_options ''GET'' endpoint []
              (set_key ''page_size'' (JNum pageSize) (set_key ''page'' (JNum page) query)))])"
  by (subst all_items_loop.simps)
     (simp add: endless_api_def simulated_host_def sendSevenApiRequest_def getCredentialType_def
        issue_def js_or_def nullish_def get_def Let_def)

lemma endless_last:
  "all_items_loop endless_api endpoint query ''items'' allItems 100 ((), trace)
     = (Inr (allItems @ [JNum 1]),
         ((), trace @ [(''sendSevenOAuth2Api'',
            request_options ''GET'' endpoint []
              (set_key ''page_size'' (JNum pageSize) (set_key ''page'' (JNum 100) query)))]))"
  by (subst all_items_loop.simps)
     (simp add: endless_api_def simulated_host_def sendSevenApiRequest_def getCredentialType_def
        issue_def js_or_def nullish_def get_def Let_def)

lemma endless_count:
  assumes "1 \<le> page" and "page \<le> 100"
  shows "length (snd (snd (all_items_loop endless_api endpoint query ''items'' allItems page ((), trace))))
           = length trace + nat (101 - page)"
  using assms
proof (induction "nat (100 - page)" arbitrary: page allItems trace)
  case 0
  then have "page = 100" by simp
  then show ?case by (simp add: endless_last)
next
  case (Suc n)
  then have "page < 100" "n = nat (100 - (page + 1))" "1 \<le> page + 1" "page + 1 \<le> 100"
    by linarith+
  with Suc.hyps(1) [of "page + 1"] show ?case
    by (simp add: endless_round)
qed

lemma endless_hundred:
  "length (snd (snd (sendSevenApiRequestAllItems endless_api ''/contacts'' [] ''items'' ((), [])))) = 100"
  using endless_count [of 1 "''/contacts''" "[]" "[]" "[]"]
  by (simp add: sendSevenApiRequestAllItems_def)

theorem pagination_bounded_witness:
  "(\<exists>issued. snd (snd (sendSevenApiRequestAllItems endless_api ''/contacts'' [] ''items'' ((), [])))
                = [] @ issued
            \<and> length issued \<le> 100)
   \<and> length (snd (snd (sendSevenApiRequestAllItems endless_api ''/contacts'' [] ''items'' ((), []))))
       = 100"
  by (rule conjI [OF pagination_bounded endless_hundred])

section \<open>Credentials and errors of the request helper\<close>

text \<open>
  \<^bold>\<open>C3.\<close> When reading the OAuth2 credentials throws, whatever it throws,
  \<open>getCredentialType\<close> returns \<^verbatim>\<open>'sendSevenApi'\<close> and does not throw, and the one request
  that \<open>sendSevenApiRequest\<close> issues is made with that credential type.
\<close>

theorem credential_fallback:
  assumes "fst (getCredentials ctx ''sendSevenOAuth2Api'' w) = Inl e"
  shows "fst (getCredentialType ctx (w, trace)) = Inr ''sendSevenApi''
       \<and> snd (snd (sendSevenApiRequest ctx method' endpoint body query (w, trace)))
           = trace @ [(''sendSevenApi'', request_options method' endpoint body query)]"
  using sendSevenApiRequest_trace [OF getCredentialType_fallback [OF assms]]
    getCredentialType_fallback [OF assms]
  by simp

text \<open>A host without OAuth2 credentials, asked for the webhooks.\<close>

theorem credential_fallback_witness:
  "fst (getCredentialType (paged_api []) ((), [])) = Inr ''sendSevenApi''
   \<and> snd (snd (sendSevenApiRequest (paged_api []) ''GET'' ''/webhooks'' [] [] ((), [])))
       = [(''sendSevenApi'',
           \<lparr>opt_method = ''GET'', opt_url = ''https://api.sendseven.com/api/v1/webhooks'',
            opt_qs = None, opt_body = None, opt_json = True\<rparr>)]"
  using credential_fallback [of "paged_api []" "()"
      "js_Error ''Error'' ''Node does not have any credentials set''" "[]"
      "''GET''" "''/webhooks''" "[]" "[]"]
  by (simp add: paged_api_def simulated_host_def request_options_def API_BASE_URL_def)

text \<open>The message the code extracts is the one the specification describes.\<close>

lemma getErrorMessage_spec: "getErrorMessage err = spec_error_message err"
  by (cases "get err ''response''")
     (auto simp: getErrorMessage_def spec_error_message_def response_body_field_def
        js_get_opt_def nullish_def Let_def split: jsval.splits)

text \<open>
  \<^bold>\<open>C8.\<close> When the HTTP request throws \<open>error\<close>, \<open>sendSevenApiRequest\<close> throws one API
  error, built from \<open>error\<close> with the message \<open>spec_error_message error\<close>: the \<^verbatim>\<open>detail\<close>
  of the response body when present, otherwise the body's \<^verbatim>\<open>message\<close> when present,
  otherwise the error's own message, otherwise \<^verbatim>\<open>'An unknown error occurred'\<close>.
\<close>

theorem api_error_message:
  assumes "getCredentialType ctx st = (Inr credentialType, st1)"
    and "fst (httpRequestWithAuthentication ctx credentialType
               (request_options method' endpoint body query) (fst st1)) = Inl error"
  shows "fst (sendSevenApiRequest ctx method' endpoint body query st)
           = Inl (nodeApiError ctx error (spec_error_message error))"
proof -
  obtain answer w2 where h:
    "httpRequestWithAuthentication ctx credentialType
       (request_options method' endpoint body query) (fst st1) = (answer, w2)"
    by (cases "httpRequestWithAuthentication ctx credentialType
       (request_options method' endpoint body query) (fst st1)")
  with assms(2) have "answer = Inl error" by simp
  with sendSevenApiRequest_answer [OF assms(1) h] show ?thesis
    by (simp add: getErrorMessage_spec)
qed

text \<open>An error whose response body has a detail: the detail becomes the message.\<close>

theorem api_error_message_witness:
  "fst (sendSevenApiRequest
          (failing_api [(''response'', JObj [(''body'', JObj [(''detail'', JStr ''Contact not found'')])]),
                        (''message'', JStr ''Request failed with status code 404'')])
          ''GET'' ''/contacts/c_1'' [] [] ((), []))
     = Inl [(''response'', JObj [(''body'', JObj [(''detail'', JStr ''Contact not found'')])]),
            (''message'', JStr ''Contact not found'')]"
  using api_error_message [of
      "failing_api [(''response'', JObj [(''body'', JObj [(''detail'', JStr ''Contact not found'')])]),
                    (''message'', JStr ''Request failed with status code 404'')]"
      "((), [])" "''sendSevenApi''" "((), [])" "''GET''" "''/contacts/c_1''" "[]" "[]"
      "[(''response'', JObj [(''body'', JObj [(''detail'', JStr ''Contact not found'')])]),
        (''message'', JStr ''Request failed with status code 404'')]"]
  by (simp add: failing_api_def simulated_host_def getCredentialType_def js_Error_def
      spec_error_message_def response_body_field_def js_get_opt_def nullish_def get_def set_key_def)

section \<open>The payloads of the action node\<close>

subsection \<open>contact: create\<close>











lemma contact_create_counterexample_payload:
  "contact_create_body sample_JSON_parse [] ''ada@example.com'' [] [(''customFields'', JObj [])]
     = Inr [(''email'', JStr ''ada@example.com''), (''custom_fields'', JObj [])]"
  by (simp add: contact_create_body_def customFields_value_def get_def set_key_def Let_def)





subsection \<open>whatsappTemplate: send\<close>

text \<open>
  \<^bold>\<open>C5.\<close> With exactly one entry in \<^verbatim>\<open>templateVariables.variables\<close> (and the three
  required parameters given), the payload's \<^verbatim>\<open>content.template.components\<close> is one
  component of type \<^verbatim>\<open>body\<close> whose parameters are one entry of type \<^verbatim>\<open>text\<close>, with the
  entry's value converted to a string. The payload is the body of the one request issued,
  a POST to \<^verbatim>\<open>/messages\<close>.
\<close>

theorem template_single_variable:
  fixes ctx :: "'w host_functions"
  defines "payload channelId to templateName templateLanguage entry \<equiv>
     [(''to'', JStr to), (''channel_id'', JStr channelId),
      (''content'',
         JObj [(''type'', JStr ''template''),
               (''template'',
                  JObj [(''name'', JStr templateName),
                        (''language'', JObj [(''code'', JStr templateLanguage)]),
                        (''components'',
                           JArr [JObj [(''type'', JStr ''body''),
                                       (''parameters'',
                                          JArr [JObj [(''type'', JStr ''text''),
                                                      (''text'', JStr (js_String (get entry ''value'')))]])]])])])]"
  assumes "get variablesData ''variables'' = JArr [JObj entry]"
    and "channelId \<noteq> []" and "to \<noteq> []" and "templateName \<noteq> []"
  shows "whatsappTemplate_send_body channelId to templateName templateLanguage variablesData
           = Inr (payload channelId to templateName templateLanguage entry)
       \<and> (\<exists>c. snd (snd (whatsappTemplate_send ctx channelId to templateName templateLanguage
                            variablesData (w, trace)))
              = trace @ [(c, \<lparr>opt_method = ''POST'', opt_url = API_BASE_URL @ ''/messages'',
                              opt_qs = None,
                              opt_body = Some (payload channelId to templateName templateLanguage entry),
                              opt_json = True\<rparr>)])"
proof -
  have built: "whatsappTemplate_send_body channelId to templateName templateLanguage variablesData
           = Inr (payload channelId to templateName templateLanguage entry)"
    using assms(2-5)
    by (simp add: whatsappTemplate_send_body_def payload_def get_def js_or_def js_gt_def
        template_parameters_def template_parameter_def nullish_def set_key_def
        NodeOperationError_def Let_def)
  have "payload channelId to templateName templateLanguage entry \<noteq> []"
    by (simp add: payload_def)
  from post_request_trace [OF this, of ctx "''/messages''" w trace] built
  show ?thesis
    by (auto simp: whatsappTemplate_send_def split: prod.splits sum.splits)
qed

text \<open>The template \<^verbatim>\<open>welcome\<close> with the one variable \<^verbatim>\<open>Ada\<close>.\<close>

theorem template_single_variable_witness:
  "whatsappTemplate_send_body ''ch_1'' ''+4930123456'' ''welcome'' ''en''
     [(''variables'', JArr [JObj [(''value'', JStr ''Ada'')]])]
   = Inr [(''to'', JStr ''+4930123456''), (''channel_id'', JStr ''ch_1''),
          (''content'',
             JObj [(''type'', JStr ''template''),
                   (''template'',
                      JObj [(''name'', JStr ''welcome''),
                            (''language'', JObj [(''code'', JStr ''en'')]),
                            (''components'',
                               JArr [JObj [(''type'', JStr ''body''),
                                           (''parameters'',
                                              JArr [JObj [(''type'', JStr ''text''),
                                                          (''text'', JStr ''Ada'')]])]])])])]"
  using template_single_variable [where variablesData = "[(''variables'', JArr [JObj [(''value'', JStr ''Ada'')]])]"
      and entry = "[(''value'', JStr ''Ada'')]" and channelId = "''ch_1''" and to = "''+4930123456''"
      and templateName = "''welcome''" and templateLanguage = "''en''", THEN conjunct1]
  by (simp add: get_def)

section \<open>The trigger node\<close>

subsection \<open>The webhook handler\<close>

text \<open>
  \<^bold>\<open>C6.\<close> A delivery whose body's \<^verbatim>\<open>event\<close> is not the configured event gives no
  workflow output: the handler returns \<^verbatim>\<open>{noWebhookResponse: true}\<close> and nothing else.
\<close>

theorem webhook_event_mismatch:
  assumes "get (getBodyData this) ''event'' \<noteq> JStr (getNodeParameter_event this)"
  shows "webhook this = \<lparr>noWebhookResponse = Some True, workflowData = None\<rparr>"
  using assms by (simp add: webhook_def Let_def)

theorem webhook_event_mismatch_witness:
  "webhook \<lparr>getRequestObject_headers = [], getBodyData = [(''event'', JStr ''message.sent'')],
            getNodeParameter_event = ''message.received'', getWorkflowStaticData = []\<rparr>
     = \<lparr>noWebhookResponse = Some True, workflowData = None\<rparr>"
  using webhook_event_mismatch [of
      "\<lparr>getRequestObject_headers = [], getBodyData = [(''event'', JStr ''message.sent'')],
        getNodeParameter_event = ''message.received'', getWorkflowStaticData = []\<rparr>"]
  by (simp add: get_def)

text \<open>
  \<^bold>\<open>C9.\<close> Two deliveries whose headers agree on every header but
  \<^verbatim>\<open>x-sendseven-signature\<close>, which may differ in value or be there in one only, get the
  same answer from the handler: the signature is read, never checked.
\<close>

theorem webhook_ignores_signature:
  assumes "\<forall>k. k \<noteq> ''x-sendseven-signature'' \<longrightarrow> get headers k = get headers' k"
  shows "webhook (this\<lparr>getRequestObject_headers := headers\<rparr>)
           = webhook (this\<lparr>getRequestObject_headers := headers'\<rparr>)"
  by (simp add: webhook_def Let_def)

text \<open>A forged signature and no signature, with a secret stored.\<close>

theorem webhook_ignores_signature_witness:
  "webhook \<lparr>getRequestObject_headers = [(''x-sendseven-signature'', JStr ''forged'')],
            getBodyData = [(''event'', JStr ''contact.created''), (''data'', JObj [(''id'', JStr ''c_1'')])],
            getNodeParameter_event = ''contact.created'',
            getWorkflowStaticData = [(''secretKey'', JStr ''s3cret'')]\<rparr>
     = webhook \<lparr>getRequestObject_headers = [],
            getBodyData = [(''event'', JStr ''contact.created''), (''data'', JObj [(''id'', JStr ''c_1'')])],
            getNodeParameter_event = ''contact.created'',
            getWorkflowStaticData = [(''secretKey'', JStr ''s3cret'')]\<rparr>"
  using webhook_ignores_signature [of "[(''x-sendseven-signature'', JStr ''forged'')]" "[]"
      "\<lparr>getRequestObject_headers = [],
        getBodyData = [(''event'', JStr ''contact.created''), (''data'', JObj [(''id'', JStr ''c_1'')])],
        getNodeParameter_event = ''contact.created'',
        getWorkflowStaticData = [(''secretKey'', JStr ''s3cret'')]\<rparr>"]
  by (simp add: get_def)

text \<open>
  \<^bold>\<open>C10.\<close> A delivery of the configured event, when that event is none of the ten
  the handler knows, gives exactly one output item: the event's name, the body's
  \<^verbatim>\<open>event_id\<close> as \<^verbatim>\<open>id\<close>, the body's \<^verbatim>\<open>data\<close> as it came (an empty object when the body
  has none), the timestamp, and the whole body under \<^verbatim>\<open>raw\<close>.
\<close>

theorem webhook_unknown_event:
  assumes "get (getBodyData this) ''event'' = JStr (getNodeParameter_event this)"
    and "getNodeParameter_event this \<notin> set (map snd WEBHOOK_EVENTS)"
  shows "webhook this =
           \<lparr>noWebhookResponse = None,
            workflowData = Some [[\<lparr>json =
              [(''id'', get (getBodyData this) ''event_id''),
               (''event'', JStr (getNodeParameter_event this)),
               (''data'', js_or (get (getBodyData this) ''data'') (JObj [])),
               (''timestamp'', get (getBodyData this) ''timestamp''),
               (''raw'', JObj (getBodyData this))]\<rparr>]]\<rparr>"
  using assms by (simp add: webhook_def Let_def format_event_def WEBHOOK_EVENTS_def)

theorem webhook_unknown_event_witness:
  "webhook \<lparr>getRequestObject_headers = [],
            getBodyData = [(''event'', JStr ''call.missed''), (''event_id'', JStr ''evt_9''),
                           (''data'', JObj [(''caller'', JStr ''+49'')]), (''timestamp'', JNum 1700000000)],
            getNodeParameter_event = ''call.missed'', getWorkflowStaticData = []\<rparr>
     = \<lparr>noWebhookResponse = None,
        workflowData = Some [[\<lparr>json =
          [(''id'', JStr ''evt_9''), (''event'', JStr ''call.missed''),
           (''data'', JObj [(''caller'', JStr ''+49'')]), (''timestamp'', JNum 1700000000),
           (''raw'', JObj [(''event'', JStr ''call.missed''), (''event_id'', JStr ''evt_9''),
                           (''data'', JObj [(''caller'', JStr ''+49'')]),
                           (''timestamp'', JNum 1700000000)])]\<rparr>]]\<rparr>"
  using webhook_unknown_event [of
      "\<lparr>getRequestObject_headers = [],
        getBodyData = [(''event'', JStr ''call.missed''), (''event_id'', JStr ''evt_9''),
                       (''data'', JObj [(''caller'', JStr ''+49'')]), (''timestamp'', JNum 1700000000)],
        getNodeParameter_event = ''call.missed'', getWorkflowStaticData = []\<rparr>"]
  by (simp add: get_def js_or_def WEBHOOK_EVENTS_def)

subsection \<open>Deleting the webhook\<close>

text \<open>
  What the method does, branch by branch. Without a stored webhook id it returns true
  and leaves the run as it is: no request is issued. With a stored id it sends the DELETE
  request; when the request succeeds, or throws an error whose \<^verbatim>\<open>httpCode\<close> (else
  \<^verbatim>\<open>statusCode\<close>) is the number 404, it forgets the id and the secret and returns true;
  when the request throws any other error it returns false and keeps the stored data.
\<close>

lemma webhook_delete_branches:
  fixes ctx :: "'w host_functions"
  defines "forgotten webhookData \<equiv> delete_key ''secretKey'' (delete_key ''webhookId'' webhookData)"
  shows "(\<not> js_truthy (get webhookData ''webhookId'')
            \<longrightarrow> webhook_delete ctx webhookData st = ((True, webhookData), st))
       \<and> (js_truthy (get webhookData ''webhookId'') \<longrightarrow>
            (case sendSevenApiRequest ctx ''DELETE''
                    (''/webhooks/'' @ js_String (get webhookData ''webhookId'')) [] [] st of
               (Inr response, st') \<Rightarrow>
                 webhook_delete ctx webhookData st = ((True, forgotten webhookData), st')
             | (Inl err, st') \<Rightarrow>
                 (error_status err = JNum 404
                    \<longrightarrow> webhook_delete ctx webhookData st = ((True, forgotten webhookData), st'))
               \<and> (error_status err \<noteq> JNum 404
                    \<longrightarrow> webhook_delete ctx webhookData st = ((False, webhookData), st'))))"
  by (auto simp: webhook_delete_def error_status_def forgotten_def Let_def
      split: prod.splits sum.splits)

text \<open>
  On a host whose API error hands the cause's properties on unchanged: no stored id; a
  numeric 404; a 500; a deletion that succeeds.
\<close>

lemma webhook_delete_examples:
  "webhook_delete (failing_api [(''httpCode'', JNum 404)]) [(''secretKey'', JStr ''s'')] ((), [])
     = ((True, [(''secretKey'', JStr ''s'')]), ((), []))
   \<and> fst (webhook_delete (failing_api [(''httpCode'', JNum 404)])
             [(''webhookId'', JStr ''wh_1''), (''secretKey'', JStr ''s'')] ((), []))
     = (True, [])
   \<and> fst (webhook_delete (failing_api [(''httpCode'', JNum 500)])
             [(''webhookId'', JStr ''wh_1''), (''secretKey'', JStr ''s'')] ((), []))
     = (False, [(''webhookId'', JStr ''wh_1''), (''secretKey'', JStr ''s'')])
   \<and> fst (webhook_delete (paged_api [])
             [(''webhookId'', JStr ''wh_1''), (''secretKey'', JStr ''s'')] ((), []))
     = (True, [])"
  by (simp add: webhook_delete_def host_simps)

text \<open>
  The comparison with 404 is strict: on a host that carries the status as text, the
  status the method reads is never the number 404.
\<close>

lemma text_status_never_404:
  "error_status (nodeApiError (text_status_api error) cause message) \<noteq> JNum 404"
  by (simp add: text_status_api_def error_status_def status_text_def js_or_def get_def Let_def)

text \<open>
  \<^bold>\<open>C7.\<close> The method is to return true when the DELETE request fails with a 404, as
  the comment in its \<^verbatim>\<open>catch\<close> block says (\<^verbatim>\<open>404 is fine - webhook may have already been
  deleted\<close>). It does not, where the API error carries the status as text. The webhook
  \<^verbatim>\<open>wh_1\<close> is stored and the DELETE request is answered with status 404; the error that
  \<open>sendSevenApiRequest\<close> throws has \<^verbatim>\<open>httpCode\<close> \<^verbatim>\<open>"404"\<close>; \<^verbatim>\<open>"404" !== 404\<close> holds, so the
  method returns false and keeps the id and the secret, after the one DELETE request.
\<close>

theorem webhook_delete_404_reported_failed:
  "fst (sendSevenApiRequest
          (text_status_api [(''statusCode'', JNum 404), (''message'', JStr ''Not Found'')])
          ''DELETE'' ''/webhooks/wh_1'' [] [] ((), []))
     = Inl [(''message'', JStr ''Not Found''), (''httpCode'', JStr ''404''),
            (''cause'', JObj [(''statusCode'', JNum 404), (''message'', JStr ''Not Found'')])]
   \<and> webhook_delete
         (text_status_api [(''statusCode'', JNum 404), (''message'', JStr ''Not Found'')])
         [(''webhookId'', JStr ''wh_1''), (''secretKey'', JStr ''s3cret'')] ((), [])
     = ((False, [(''webhookId'', JStr ''wh_1''), (''secretKey'', JStr ''s3cret'')]),
        ((), [(''sendSevenApi'',
               \<lparr>opt_method = ''DELETE'',
                opt_url = ''https://api.sendseven.com/api/v1/webhooks/wh_1'',
                opt_qs = None, opt_body = None, opt_json = True\<rparr>)]))"
  by (simp add: webhook_delete_def text_status_api_def status_text_def string_of_int_def
      digit_char_def host_simps)

end
